theory Spec2Isabelle
  imports Main "HOL-Library.AList" "HOL-Library.Sublist" "HOL-Library.Char_ord"
    "HOL-Library.List_Lexorder" "HOL-Library.Product_Lexorder"
begin

section \<open>Python strings and POSIX paths\<close>

text \<open>
  Byte strings and text are both lists of 8-bit characters. Text is taken to be ASCII:
  \<open>decode\<close> accepts exactly the byte strings below 0x80 (top bit clear) and gives them
  back unchanged (multi-byte UTF-8 is outside the model and counted as undecodable).
\<close>

type_synonym bytes = string

datatype error =
    OSError
  | AssertionError
  | ZlibError
  | UnicodeDecodeError
  | RecursionError
  | ValueError
  | KeyError
  | TypeError
  | AttributeError
  | UnboundLocalError
  | ConflictException "string list"

definition decode :: "bytes \<Rightarrow> error + string" where
  "decode b = (if list_all (\<lambda>c. \<not> digit7 c) b then Inr b else Inl UnicodeDecodeError)"

text \<open>\<open>s.split(c)\<close> for a separator of one character: never the empty list.\<close>

fun split_on :: "char \<Rightarrow> string \<Rightarrow> string list" where
  "split_on c [] = [[]]"
| "split_on c (x # xs) =
     (if x = c then [] # split_on c xs
      else (case split_on c xs of
              [] \<Rightarrow> [[x]]
            | w # ws \<Rightarrow> (x # w) # ws))"

text \<open>\<open>b.partition(b'\x00')\<close>: the part before the first NUL and the part after it.\<close>

definition partition_nul :: "bytes \<Rightarrow> bytes \<times> bytes" where
  "partition_nul b = (takeWhile (\<lambda>c. c \<noteq> CHR 0x00) b, drop 1 (dropWhile (\<lambda>c. c \<noteq> CHR 0x00) b))"

text \<open>
  \<open>s.strip()\<close>, \<open>s.rstrip('/')\<close> and \<open>s.splitlines()\<close> on ASCII text. White space is
  TAB to CR, FS to US and the blank; a line ends at LF, CR, CR LF, VT, FF, FS, GS or RS.
\<close>

definition isspace :: "char \<Rightarrow> bool" where
  "isspace c = (c \<in> set [CHR 0x09, CHR 0x0A, CHR 0x0B, CHR 0x0C, CHR 0x0D,
                          CHR 0x1C, CHR 0x1D, CHR 0x1E, CHR 0x1F, CHR 0x20])"

definition strip :: "string \<Rightarrow> string" where
  "strip s = rev (dropWhile isspace (rev (dropWhile isspace s)))"

definition is_linebreak :: "char \<Rightarrow> bool" where
  "is_linebreak c = (c \<in> set [CHR 0x0A, CHR 0x0B, CHR 0x0C, CHR 0x0D, CHR 0x1C, CHR 0x1D, CHR 0x1E])"

fun splitlines :: "string \<Rightarrow> string list" where
  "splitlines [] = []"
| "splitlines (x # xs) =
     (if is_linebreak x then
        [] # splitlines (if x = CHR 0x0D \<and> take 1 xs = [CHR 0x0A] then drop 1 xs else xs)
      else (case splitlines xs of
              [] \<Rightarrow> [[x]]
            | w # ws \<Rightarrow> (x # w) # ws))"

text \<open>\<open>sep.join(parts)\<close>\<close>

fun join :: "string \<Rightarrow> string list \<Rightarrow> string" where
  "join sep [] = []"
| "join sep [w] = w"
| "join sep (w # ws) = w @ sep @ join sep ws"

text \<open>The part of \<open>s\<close> after the first \<open>c\<close>: \<open>s.split(c, 1)[1]\<close> where \<open>c\<close> occurs.\<close>

definition after_first :: "char \<Rightarrow> string \<Rightarrow> string" where
  "after_first c s = drop 1 (dropWhile (\<lambda>x. x \<noteq> c) s)"

text \<open>\<open>line.split(' ', 1)\<close> unpacked into two names: a \<open>ValueError\<close> without a blank.\<close>

definition split_pair :: "string \<Rightarrow> (string \<times> string) option" where
  "split_pair line =
     (if CHR '' '' \<in> set line
      then Some (takeWhile (\<lambda>x. x \<noteq> CHR '' '') line, after_first CHR '' '' line)
      else None)"

text \<open>\<open>entry.split(' ', 2)\<close> unpacked into three names.\<close>

definition split_triple :: "string \<Rightarrow> (string \<times> string \<times> string) option" where
  "split_triple line =
     (case split_pair line of
        None \<Rightarrow> None
      | Some (a, rest) \<Rightarrow>
          (case split_pair rest of
             None \<Rightarrow> None
           | Some (b, c) \<Rightarrow> Some (a, b, c)))"

text \<open>\<open>posixpath.dirname\<close>\<close>

definition dirname :: "string \<Rightarrow> string" where
  "dirname p =
     (let head = rev (dropWhile (\<lambda>x. x \<noteq> CHR ''/'') (rev p))
      in if head \<noteq> [] \<and> \<not> list_all (\<lambda>x. x = CHR ''/'') head
         then rev (dropWhile (\<lambda>x. x = CHR ''/'') (rev head))
         else head)"

text \<open>Python's truth value of a string that may be \<open>None\<close>.\<close>

definition truthy :: "string option \<Rightarrow> bool" where
  "truthy v = (v \<noteq> None \<and> v \<noteq> Some [])"

text \<open>
  A file is named by the list of components that \<open>posixpath.normpath\<close> leaves: empty
  components and \<open>.\<close> are dropped, \<open>..\<close> removes the component before it (and is kept where
  there is none to remove). The empty list is the current directory. A path with a
  leading slash keeps the marker component \<open>/\<close> in front.
\<close>

type_synonym path = "string list"

fun norm_comps :: "bool \<Rightarrow> string list \<Rightarrow> string list \<Rightarrow> string list" where
  "norm_comps initial_slashes new_comps [] = new_comps"
| "norm_comps initial_slashes new_comps (c # comps) =
     (if c = [] \<or> c = ''.'' then norm_comps initial_slashes new_comps comps
      else if c \<noteq> ''..'' \<or> (\<not> initial_slashes \<and> new_comps = [])
              \<or> (new_comps \<noteq> [] \<and> last new_comps = ''..'')
        then norm_comps initial_slashes (new_comps @ [c]) comps
      else if new_comps \<noteq> [] then norm_comps initial_slashes (butlast new_comps) comps
      else norm_comps initial_slashes new_comps comps)"

definition os_key :: "string \<Rightarrow> path" where
  "os_key p =
     (let initial_slashes = (p \<noteq> [] \<and> hd p = CHR ''/'');
          comps = norm_comps initial_slashes [] (split_on CHR ''/'' p)
      in if initial_slashes then ''/'' # comps else comps)"

section \<open>The file system under the working directory\<close>

datatype node = File bytes | Dir

type_synonym fs = "(path \<times> node) list"

definition os_isfile :: "fs \<Rightarrow> path \<Rightarrow> bool" where
  "os_isfile fs k = (case map_of fs k of Some (File b) \<Rightarrow> True | _ \<Rightarrow> False)"

definition os_isdir :: "fs \<Rightarrow> path \<Rightarrow> bool" where
  "os_isdir fs k = (k = [] \<or> map_of fs k = Some Dir)"

text \<open>\<open>open(p, 'rb').read()\<close>\<close>

definition os_read :: "fs \<Rightarrow> path \<Rightarrow> error + bytes" where
  "os_read fs k = (case map_of fs k of Some (File b) \<Rightarrow> Inr b | _ \<Rightarrow> Inl OSError)"

text \<open>
  \<open>open(p, 'wb').write(data)\<close>: the directory of the file must exist and the name must
  not be a directory; an existing file is truncated and written anew.
\<close>

definition os_write :: "fs \<Rightarrow> path \<Rightarrow> bytes \<Rightarrow> error + fs" where
  "os_write fs k data =
     (if k = [] \<or> \<not> os_isdir fs (butlast k) \<or> os_isdir fs k then Inl OSError
      else Inr (AList.update k (File data) fs))"

text \<open>\<open>os.remove(p)\<close>\<close>

definition os_remove :: "fs \<Rightarrow> path \<Rightarrow> error + fs" where
  "os_remove fs k = (if os_isfile fs k then Inr (AList.delete k fs) else Inl OSError)"

text \<open>
  \<open>os.makedirs(p, exist_ok=True)\<close>: every missing directory on the way is created, an
  existing directory is left alone, a regular file in the way is an error.
\<close>

fun mkdir_prefixes :: "fs \<Rightarrow> path \<Rightarrow> string list \<Rightarrow> error + fs" where
  "mkdir_prefixes fs made [] = Inr fs"
| "mkdir_prefixes fs made (c # cs) =
     (let k = made @ [c] in
      case map_of fs k of
        Some (File b) \<Rightarrow> Inl OSError
      | Some Dir \<Rightarrow> mkdir_prefixes fs k cs
      | None \<Rightarrow> mkdir_prefixes (AList.update k Dir fs) k cs)"

definition os_makedirs :: "fs \<Rightarrow> path \<Rightarrow> error + fs" where
  "os_makedirs fs k = mkdir_prefixes fs [] k"

section \<open>Repository state and the services the code calls\<close>

text \<open>
  The SHA-1 digest, zlib and the external \<open>diff3\<close> tool are library code: they are
  parameters of the model. \<open>recursion_limit\<close> is the depth at which the interpreter
  raises \<open>RecursionError\<close>.
\<close>

record env =
  sha1_hex :: "bytes \<Rightarrow> string"
  zlib_compress :: "bytes \<Rightarrow> bytes"
  zlib_decompress :: "bytes \<Rightarrow> bytes option"
  diff3 :: "bytes \<Rightarrow> bytes \<Rightarrow> bytes \<Rightarrow> bytes \<times> int"
  recursion_limit :: nat
  user_identity :: "string \<times> string"
  format_timestamp :: string

text \<open>
  An index entry is a dictionary with the key \<open>state\<close>: \<open>clear\<close> with an \<open>oid\<close>, or
  \<open>conflict\<close> with \<open>type\<close>, \<open>oid\<close> (the merged blob), \<open>base\<close>, \<open>head\<close> and \<open>other\<close>.
\<close>

datatype ctype =
    add_add
  | current_delete_target_modify
  | current_modify_target_delete
  | content_conflict

datatype entry =
    Clear (entry_oid: "string option")
  | Conflict ctype (entry_oid: "string option") "string option" "string option" "string option"

type_synonym index = "(string \<times> entry) list"

record rebase_state =
  orig_head :: string
  upstream :: string
  commits :: "string list"
  current_index :: nat

text \<open>
  The files below the working directory, byte for byte, and next to them the two JSON
  documents of the store in decoded form: \<open>.gitforge/index\<close> (a dictionary in insertion
  order; a missing file reads as the empty dictionary) and \<open>.gitforge/REBASE_STATE\<close>.
\<close>

record repo =
  files :: fs
  index :: index
  REBASE_STATE :: "rebase_state option"

text \<open>\<open>GIT_DIR\<close> as \<open>cli.main\<close> sets it: \<open>change_git_dir('.')\<close>.\<close>

definition GIT_DIR :: string where
  "GIT_DIR = ''./.gitforge''"

section \<open>objects.py: the object store\<close>

definition object_path :: "string \<Rightarrow> string" where
  "object_path oid = GIT_DIR @ ''/objects/'' @ take 2 oid @ ''/'' @ drop 2 oid"

definition hash_object :: "env \<Rightarrow> bytes \<Rightarrow> string \<Rightarrow> repo \<Rightarrow> (error + string) \<times> repo" where
  "hash_object e data ty st =
     (let obj = ty @ [CHR 0x00] @ data;
          oid = sha1_hex e obj
      in case os_makedirs (files st) (os_key (GIT_DIR @ ''/objects/'' @ take 2 oid)) of
           Inl err \<Rightarrow> (Inl err, st)
         | Inr fs1 \<Rightarrow>
             (case os_write fs1 (os_key (object_path oid)) (zlib_compress e obj) of
                Inl err \<Rightarrow> (Inl err, st\<lparr>files := fs1\<rparr>)
              | Inr fs2 \<Rightarrow> (Inr oid, st\<lparr>files := fs2\<rparr>)))"

definition get_object :: "env \<Rightarrow> repo \<Rightarrow> string \<Rightarrow> string option \<Rightarrow> error + bytes" where
  "get_object e st oid expected =
     (case os_read (files st) (os_key (object_path oid)) of
        Inl err \<Rightarrow> Inl err
      | Inr raw \<Rightarrow>
          (case zlib_decompress e raw of
             None \<Rightarrow> Inl ZlibError
           | Some obj \<Rightarrow>
               (case partition_nul obj of
                  (ty_bytes, content) \<Rightarrow>
                    (case decode ty_bytes of
                       Inl err \<Rightarrow> Inl err
                     | Inr ty \<Rightarrow>
                         (case expected of
                            None \<Rightarrow> Inr content
                          | Some ex \<Rightarrow> if ty = ex then Inr content else Inl AssertionError)))))"

definition object_exists :: "repo \<Rightarrow> string \<Rightarrow> bool" where
  "object_exists st oid = os_isfile (files st) (os_key (object_path oid))"

text \<open>\<open>has_conflicts\<close> and \<open>get_conflicted_files\<close>\<close>

definition is_conflict :: "entry \<Rightarrow> bool" where
  "is_conflict en = (case en of Conflict t m b h o' \<Rightarrow> True | Clear x \<Rightarrow> False)"

definition has_conflicts :: "index \<Rightarrow> bool" where
  "has_conflicts idx = list_ex (\<lambda>(p, en). is_conflict en) idx"

definition get_conflicted_files :: "index \<Rightarrow> string list" where
  "get_conflicted_files idx = map fst (filter (\<lambda>(p, en). is_conflict en) idx)"

subsection \<open>References\<close>

record RefValue =
  symbolic :: bool
  ref_value :: "string option"

text \<open>
  The first lines of \<open>_get_ref_internal\<close>: the stripped text of the reference's file,
  \<open>None\<close> where there is no such file.
\<close>

definition read_ref_file :: "repo \<Rightarrow> string \<Rightarrow> error + string option" where
  "read_ref_file st ref =
     (let ref_path = GIT_DIR @ ''/'' @ ref in
      if os_isfile (files st) (os_key ref_path)
      then (case os_read (files st) (os_key ref_path) of
              Inl err \<Rightarrow> Inl err
            | Inr raw \<Rightarrow>
                (case decode raw of
                   Inl err \<Rightarrow> Inl err
                 | Inr text \<Rightarrow> Inr (Some (strip text))))
      else Inr None)"

text \<open>
  \<open>_get_ref_internal\<close>. The first argument counts the calls the interpreter still
  allows: a chain of symbolic references that does not end raises \<open>RecursionError\<close>.
\<close>

fun get_ref_internal :: "nat \<Rightarrow> repo \<Rightarrow> string \<Rightarrow> bool \<Rightarrow> error + (string \<times> RefValue)" where
  "get_ref_internal 0 st ref deref = Inl RecursionError"
| "get_ref_internal (Suc n) st ref deref =
     (case read_ref_file st ref of
        Inl err \<Rightarrow> Inl err
      | Inr v \<Rightarrow>
          (case v of
             None \<Rightarrow> Inr (ref, \<lparr>symbolic = False, ref_value = None\<rparr>)
           | Some s \<Rightarrow>
               if s \<noteq> [] \<and> prefix ''ref:'' s then
                 (let target = strip (after_first CHR '':'' s) in
                  if deref then get_ref_internal n st target True
                  else Inr (ref, \<lparr>symbolic = True, ref_value = Some target\<rparr>))
               else Inr (ref, \<lparr>symbolic = False, ref_value = Some s\<rparr>)))"

definition get_ref :: "env \<Rightarrow> repo \<Rightarrow> string \<Rightarrow> bool \<Rightarrow> error + RefValue" where
  "get_ref e st ref deref =
     (case get_ref_internal (recursion_limit e) st ref deref of
        Inl err \<Rightarrow> Inl err
      | Inr (r, v) \<Rightarrow> Inr v)"

definition update_ref :: "env \<Rightarrow> string \<Rightarrow> RefValue \<Rightarrow> bool \<Rightarrow> repo \<Rightarrow> (error + unit) \<times> repo" where
  "update_ref e ref v deref st =
     (case get_ref_internal (recursion_limit e) st ref deref of
        Inl err \<Rightarrow> (Inl err, st)
      | Inr (r, old) \<Rightarrow>
          (case ref_value v of
             None \<Rightarrow> (Inl AssertionError, st)
           | Some s \<Rightarrow>
               if s = [] then (Inl AssertionError, st)
               else
                 (let text = (if symbolic v then ''ref: '' @ s else s);
                      ref_path = GIT_DIR @ ''/'' @ r
                  in case os_makedirs (files st) (os_key (dirname ref_path)) of
                       Inl err \<Rightarrow> (Inl err, st)
                     | Inr fs1 \<Rightarrow>
                         (case os_write fs1 (os_key ref_path) text of
                            Inl err \<Rightarrow> (Inl err, st\<lparr>files := fs1\<rparr>)
                          | Inr fs2 \<Rightarrow> (Inr (), st\<lparr>files := fs2\<rparr>)))))"

definition delete_ref :: "env \<Rightarrow> string \<Rightarrow> bool \<Rightarrow> repo \<Rightarrow> (error + unit) \<times> repo" where
  "delete_ref e ref deref st =
     (case get_ref_internal (recursion_limit e) st ref deref of
        Inl err \<Rightarrow> (Inl err, st)
      | Inr (r, old) \<Rightarrow>
          (case os_remove (files st) (os_key (GIT_DIR @ ''/'' @ r)) of
             Inl err \<Rightarrow> (Inl err, st)
           | Inr fs1 \<Rightarrow> (Inr (), st\<lparr>files := fs1\<rparr>)))"

section \<open>repository.py: the commit graph\<close>

text \<open>
  \<open>get_commit\<close>. Of a commit's fields the tree, the parents and the message are kept;
  the \<open>author\<close> and \<open>committer\<close> lines are recognised and their text is not parsed
  (parsing them never fails in the source).
\<close>

record commit =
  commit_tree :: string
  commit_parents :: "string list"
  commit_message :: string

text \<open>
  The header loop: \<open>takewhile\<close> stops at, and swallows, the first empty line; what is
  left over is the message.
\<close>

fun parse_headers :: "string list \<Rightarrow> string option \<Rightarrow> string list
    \<Rightarrow> error + (string option \<times> string list \<times> string list)" where
  "parse_headers [] t ps = Inr (t, ps, [])"
| "parse_headers (line # rest) t ps =
     (if line = [] then Inr (t, ps, rest)
      else (case split_pair line of
              None \<Rightarrow> Inl ValueError
            | Some (key, v) \<Rightarrow>
                if key = ''tree'' then parse_headers rest (Some v) ps
                else if key = ''parent'' then parse_headers rest t (ps @ [v])
                else if key = ''author'' then parse_headers rest t ps
                else if key = ''committer'' then parse_headers rest t ps
                else Inl AssertionError))"

definition get_commit :: "env \<Rightarrow> repo \<Rightarrow> string \<Rightarrow> error + commit" where
  "get_commit e st oid =
     (case get_object e st oid (Some ''commit'') of
        Inl err \<Rightarrow> Inl err
      | Inr raw \<Rightarrow>
          (case decode raw of
             Inl err \<Rightarrow> Inl err
           | Inr text \<Rightarrow>
               (case parse_headers (splitlines text) None [] of
                  Inl err \<Rightarrow> Inl err
                | Inr (t, ps, rest) \<Rightarrow>
                    (case t of
                       None \<Rightarrow> Inl UnboundLocalError
                     | Some tr \<Rightarrow>
                         Inr \<lparr>commit_tree = tr, commit_parents = ps,
                              commit_message = join [CHR 0x0A] rest\<rparr>))))"

text \<open>
  \<open>get_merge_base\<close>: the two halves of the loop body are the same code on swapped
  arguments. Expanding a frontier pops its first commit; the result is that commit if the
  other side has visited it, else the frontier and the visited set with the commit's new
  parents added. An empty frontier is left as it is.
\<close>

fun add_parents :: "string list \<Rightarrow> string set \<Rightarrow> string list \<Rightarrow> string set \<times> string list" where
  "add_parents [] visited frontier = (visited, frontier)"
| "add_parents (p # ps) visited frontier =
     (if p \<notin> visited then add_parents ps (insert p visited) (frontier @ [p])
      else add_parents ps visited frontier)"

definition expand :: "env \<Rightarrow> repo \<Rightarrow> string set \<Rightarrow> string set \<Rightarrow> string list
    \<Rightarrow> error + (string + string set \<times> string list)" where
  "expand e st visited_own visited_other frontier =
     (case frontier of
        [] \<Rightarrow> Inr (Inr (visited_own, frontier))
      | current # rest \<Rightarrow>
          if current \<in> visited_other then Inr (Inl current)
          else (case get_commit e st current of
                  Inl err \<Rightarrow> Inl err
                | Inr c \<Rightarrow> Inr (Inr (add_parents (commit_parents c) visited_own rest))))"

partial_function (option) merge_base_loop ::
  "env \<Rightarrow> repo \<Rightarrow> string set \<Rightarrow> string set \<Rightarrow> string list \<Rightarrow> string list
    \<Rightarrow> (error + string option) option" where
  "merge_base_loop e st visited1 visited2 frontier1 frontier2 =
     (if frontier1 = [] \<and> frontier2 = [] then Some (Inr None)
      else (case expand e st visited1 visited2 frontier1 of
              Inl err \<Rightarrow> Some (Inl err)
            | Inr (Inl found) \<Rightarrow> Some (Inr (Some found))
            | Inr (Inr (v1, f1)) \<Rightarrow>
                (case expand e st visited2 v1 frontier2 of
                   Inl err \<Rightarrow> Some (Inl err)
                 | Inr (Inl found) \<Rightarrow> Some (Inr (Some found))
                 | Inr (Inr (v2, f2)) \<Rightarrow> merge_base_loop e st v1 v2 f1 f2)))"

declare merge_base_loop.simps [code]

text \<open>The outer \<open>option\<close> is \<open>None\<close> where the loop does not end.\<close>

definition get_merge_base :: "env \<Rightarrow> repo \<Rightarrow> string \<Rightarrow> string \<Rightarrow> (error + string option) option" where
  "get_merge_base e st oid1 oid2 =
     (if oid1 = oid2 then Some (Inr (Some oid1))
      else merge_base_loop e st {oid1} {oid2} [oid1] [oid2])"

text \<open>
  \<open>iter_commits_and_parents\<close> is a generator: its run is the list of the OIDs it yields
  and the exception that ended it, if one did. Each OID is yielded before its commit is
  read.
\<close>

partial_function (option) iter_commits_loop ::
  "env \<Rightarrow> repo \<Rightarrow> string list \<Rightarrow> string set \<Rightarrow> string list
    \<Rightarrow> (string list \<times> error option) option" where
  "iter_commits_loop e st oids visited yielded =
     (case oids of
        [] \<Rightarrow> Some (yielded, None)
      | oid # rest \<Rightarrow>
          if oid = [] \<or> oid \<in> visited then iter_commits_loop e st rest visited yielded
          else (case get_commit e st oid of
                  Inl err \<Rightarrow> Some (yielded @ [oid], Some err)
                | Inr c \<Rightarrow>
                    iter_commits_loop e st
                      (take 1 (commit_parents c) @ rest @ drop 1 (commit_parents c))
                      (insert oid visited) (yielded @ [oid])))"

declare iter_commits_loop.simps [code]

definition iter_commits_and_parents ::
  "env \<Rightarrow> repo \<Rightarrow> string list \<Rightarrow> (string list \<times> error option) option" where
  "iter_commits_and_parents e st oids = iter_commits_loop e st oids {} []"

text \<open>
  \<open>is_ancestor_of\<close>: \<open>maybe_ancestor in iter_commits_and_parents({commit})\<close> is true as soon
  as the OID is yielded, raises what the generator raises before that, and is false when
  the generator ends.
\<close>

definition is_ancestor_of :: "env \<Rightarrow> repo \<Rightarrow> string \<Rightarrow> string \<Rightarrow> (error + bool) option" where
  "is_ancestor_of e st c maybe_ancestor =
     (case iter_commits_and_parents e st [c] of
        None \<Rightarrow> None
      | Some (yielded, raised) \<Rightarrow>
          if maybe_ancestor \<in> set yielded then Some (Inr True)
          else (case raised of
                  Some err \<Rightarrow> Some (Inl err)
                | None \<Rightarrow> Some (Inr False)))"

section \<open>diff_engine.py: comparing and merging trees\<close>

text \<open>
  A tree is a dictionary from paths to OIDs, kept in insertion order: a list of pairs
  whose first components differ. \<open>compare_trees\<close> gives, for every path of any of the
  trees, the row of its OIDs (\<open>None\<close> where a tree lacks the path), in the order in which
  the paths are first met.
\<close>

type_synonym tree = "(string \<times> string) list"






text \<open>\<open>a or b\<close> on OIDs that may be \<open>None\<close>.\<close>

definition py_or :: "string option \<Rightarrow> string option \<Rightarrow> string option" where
  "py_or a b = (if truthy a then a else b)"





section \<open>repository.py: trees, the index and the working directory\<close>

text \<open>
  \<open>get_tree\<close> with \<open>_iter_tree_entries\<close>. The first argument counts the nested calls the
  interpreter still allows. The result is a dictionary: a later entry for a path
  replaces the earlier one in place.
\<close>

function get_tree :: "nat \<Rightarrow> env \<Rightarrow> repo \<Rightarrow> string option \<Rightarrow> string \<Rightarrow> error + tree"
  and get_tree_entries :: "nat \<Rightarrow> env \<Rightarrow> repo \<Rightarrow> string \<Rightarrow> string list \<Rightarrow> tree \<Rightarrow> error + tree"
where
  "get_tree 0 e st oid base_path = Inl RecursionError"
| "get_tree (Suc n) e st oid base_path =
     (case oid of
        None \<Rightarrow> Inr []
      | Some s \<Rightarrow>
          if s = [] then Inr []
          else (case get_object e st s (Some ''tree'') of
                  Inl err \<Rightarrow> Inl err
                | Inr raw \<Rightarrow>
                    (case decode raw of
                       Inl err \<Rightarrow> Inl err
                     | Inr text \<Rightarrow> get_tree_entries n e st base_path (splitlines text) [])))"
| "get_tree_entries n e st base_path [] result = Inr result"
| "get_tree_entries n e st base_path (entry # entries) result =
     (case split_triple entry of
        None \<Rightarrow> Inl ValueError
      | Some (ty, oid, name) \<Rightarrow>
          if CHR ''/'' \<in> set name then Inl AssertionError
          else if name = ''..'' \<or> name = ''.'' then Inl AssertionError
          else if ty = ''blob''
            then get_tree_entries n e st base_path entries
                   (AList.update (base_path @ name) oid result)
          else if ty = ''tree''
            then (case get_tree n e st (Some oid) (base_path @ name @ ''/'') of
                    Inl err \<Rightarrow> Inl err
                  | Inr sub \<Rightarrow>
                      get_tree_entries n e st base_path entries
                        (fold (\<lambda>(k, v). AList.update k v) sub result))
          else Inl AssertionError)"
  by pat_completeness auto
termination
  by (relation "measures [\<lambda>x. case x of Inl (n, r) \<Rightarrow> 2 * n
                                 | Inr (n, e, st, bp, es, r) \<Rightarrow> 2 * n + 1,
                          \<lambda>x. case x of Inl t \<Rightarrow> 0
                                 | Inr (n, e, st, bp, es, r) \<Rightarrow> length es]") auto


text \<open>
  \<open>os.path.relpath\<close> of a file name given relative to the working directory: the
  normalised name, \<open>.\<close> for the directory itself.
\<close>

definition relpath_of :: "path \<Rightarrow> string" where
  "relpath_of k = (if k = [] then ''.'' else join ''/'' k)"

definition relpath :: "string \<Rightarrow> string" where
  "relpath p = relpath_of (os_key p)"





text \<open>
  \<open>_checkout_index\<close>. \<open>open(path, 'wb')\<close> creates or truncates the file before
  \<open>get_object\<close> is called for its contents.
\<close>

fun checkout_entries :: "env \<Rightarrow> index \<Rightarrow> repo \<Rightarrow> (error + unit) \<times> repo" where
  "checkout_entries e [] st = (Inr (), st)"
| "checkout_entries e ((path, en) # rest) st =
     (case entry_oid en of
        None \<Rightarrow> checkout_entries e rest st
      | Some oid \<Rightarrow>
          (case os_makedirs (files st) (os_key (dirname (''./'' @ path))) of
             Inl err \<Rightarrow> (Inl err, st)
           | Inr fs1 \<Rightarrow>
               (case os_write fs1 (os_key path) [] of
                  Inl err \<Rightarrow> (Inl err, st\<lparr>files := fs1\<rparr>)
                | Inr fs2 \<Rightarrow>
                    (case get_object e (st\<lparr>files := fs2\<rparr>) oid (Some ''blob'') of
                       Inl err \<Rightarrow> (Inl err, st\<lparr>files := fs2\<rparr>)
                     | Inr content \<Rightarrow>
                         (case os_write fs2 (os_key path) content of
                            Inl err \<Rightarrow> (Inl err, st\<lparr>files := fs2\<rparr>)
                          | Inr fs3 \<Rightarrow> checkout_entries e rest (st\<lparr>files := fs3\<rparr>))))))"




section \<open>repository.py: writing trees and commits\<close>

text \<open>
  \<open>write_tree\<close> first turns the flat index into nested dictionaries whose values are
  OIDs (files) or dictionaries (directories). A path that runs through a name already
  bound to a file raises: \<open>AttributeError\<close> from \<open>setdefault\<close> where more directories
  follow, \<open>TypeError\<close> from the assignment where the file name follows.
\<close>

datatype tnode = Leaf string | Node "(string \<times> tnode) list"

fun tree_insert :: "string list \<Rightarrow> string \<Rightarrow> (string \<times> tnode) list \<Rightarrow> error + (string \<times> tnode) list" where
  "tree_insert [] oid d = Inr d"
| "tree_insert [filename] oid d = Inr (AList.update filename (Leaf oid) d)"
| "tree_insert (dname # rest) oid d =
     (case map_of d dname of
        None \<Rightarrow>
          (case tree_insert rest oid [] of
             Inl err \<Rightarrow> Inl err
           | Inr sub \<Rightarrow> Inr (AList.update dname (Node sub) d))
      | Some (Node sub0) \<Rightarrow>
          (case tree_insert rest oid sub0 of
             Inl err \<Rightarrow> Inl err
           | Inr sub \<Rightarrow> Inr (AList.update dname (Node sub) d))
      | Some (Leaf x) \<Rightarrow> if length rest = 1 then Inl TypeError else Inl AttributeError)"

fun index_as_tree :: "index \<Rightarrow> (string \<times> tnode) list \<Rightarrow> error + (string \<times> tnode) list" where
  "index_as_tree [] d = Inr d"
| "index_as_tree ((path, en) # rest) d =
     (case entry_oid en of
        None \<Rightarrow> index_as_tree rest d
      | Some oid \<Rightarrow>
          (case tree_insert (split_on CHR ''/'' path) oid d of
             Inl err \<Rightarrow> Inl err
           | Inr d1 \<Rightarrow> index_as_tree rest d1))"

text \<open>
  \<open>write_tree_recursive\<close>: the entries \<open>(name, oid, type)\<close> of a dictionary, sorted, one
  line \<open>type oid name\<close> each, hashed as a tree.
\<close>

definition tree_line :: "string \<times> string \<times> string \<Rightarrow> string" where
  "tree_line en = (case en of (name, oid, ty) \<Rightarrow> ty @ '' '' @ oid @ '' '' @ name @ [CHR 0x0A])"

fun write_tree_recursive :: "env \<Rightarrow> (string \<times> tnode) list \<Rightarrow> repo \<Rightarrow> (error + string) \<times> repo"
  and write_tree_entries :: "env \<Rightarrow> (string \<times> tnode) list \<Rightarrow> (string \<times> string \<times> string) list
    \<Rightarrow> repo \<Rightarrow> (error + (string \<times> string \<times> string) list) \<times> repo"
where
  "write_tree_recursive e tree_dict st =
     (case write_tree_entries e tree_dict [] st of
        (Inl err, st1) \<Rightarrow> (Inl err, st1)
      | (Inr entries, st1) \<Rightarrow>
          hash_object e (concat (map tree_line (sort entries))) ''tree'' st1)"
| "write_tree_entries e [] entries st = (Inr entries, st)"
| "write_tree_entries e ((name, v) # rest) entries st =
     (case v of
        Leaf oid \<Rightarrow> write_tree_entries e rest (entries @ [(name, oid, ''blob'')]) st
      | Node sub \<Rightarrow>
          (case write_tree_recursive e sub st of
             (Inl err, st1) \<Rightarrow> (Inl err, st1)
           | (Inr oid, st1) \<Rightarrow> write_tree_entries e rest (entries @ [(name, oid, ''tree'')]) st1))"

definition write_tree :: "env \<Rightarrow> repo \<Rightarrow> (error + string) \<times> repo" where
  "write_tree e st =
     (case index_as_tree (index st) [] of
        Inl err \<Rightarrow> (Inl err, st)
      | Inr d \<Rightarrow> write_tree_recursive e d st)"

text \<open>
  The part of \<open>commit\<close> under \<open>if allow_merge_parent\<close>: the parent line for \<open>MERGE_HEAD\<close>,
  if that reference has a value, with \<open>MERGE_HEAD\<close> and \<open>ORIG_HEAD\<close> deleted.
\<close>

definition merge_parent :: "env \<Rightarrow> repo \<Rightarrow> (error + string) \<times> repo" where
  "merge_parent e st =
     (case get_ref e st ''MERGE_HEAD'' True of
        Inl err \<Rightarrow> (Inl err, st)
      | Inr mh \<Rightarrow>
          (case (if truthy (ref_value mh)
                 then (case delete_ref e ''MERGE_HEAD'' False st of
                         (Inl err, st1) \<Rightarrow> (Inl err, st1)
                       | (Inr u, st1) \<Rightarrow> (Inr (''parent '' @ the (ref_value mh) @ [CHR 0x0A]), st1))
                 else (Inr [], st)) of
             (Inl err, st1) \<Rightarrow> (Inl err, st1)
           | (Inr line, st1) \<Rightarrow>
               (case get_ref e st1 ''ORIG_HEAD'' True of
                  Inl err \<Rightarrow> (Inl err, st1)
                | Inr oh \<Rightarrow>
                    if truthy (ref_value oh)
                    then (case delete_ref e ''ORIG_HEAD'' False st1 of
                            (Inl err, st2) \<Rightarrow> (Inl err, st2)
                          | (Inr u, st2) \<Rightarrow> (Inr line, st2))
                    else (Inr line, st1))))"

text \<open>
  \<open>commit\<close>. The configured identity and the clock are inputs (\<open>user_identity\<close>,
  \<open>format_timestamp\<close>). The conflict check raises inside the \<open>with\<close> block on the index,
  before anything is written.
\<close>

definition commit :: "env \<Rightarrow> string \<Rightarrow> string option \<Rightarrow> string option \<Rightarrow> string option \<Rightarrow> bool
    \<Rightarrow> repo \<Rightarrow> (error + string) \<times> repo" where
  "commit e message author_name author_email author_date allow_merge_parent st =
     (if has_conflicts (index st)
      then (Inl (ConflictException (get_conflicted_files (index st))), st)
      else
        (let a_name = the (py_or author_name (Some (fst (user_identity e))));
             a_email = the (py_or author_email (Some (snd (user_identity e))));
             a_date = the (py_or author_date (Some (format_timestamp e)))
         in case write_tree e st of
              (Inl err, st1) \<Rightarrow> (Inl err, st1)
            | (Inr tree_oid, st1) \<Rightarrow>
                (case get_ref e st1 ''HEAD'' True of
                   Inl err \<Rightarrow> (Inl err, st1)
                 | Inr hd_ref \<Rightarrow>
                     (case (if allow_merge_parent then merge_parent e st1 else (Inr [], st1)) of
                        (Inl err, st2) \<Rightarrow> (Inl err, st2)
                      | (Inr merge_line, st2) \<Rightarrow>
                          (let commit_data =
                                 ''tree '' @ tree_oid @ [CHR 0x0A]
                                 @ (if truthy (ref_value hd_ref)
                                    then ''parent '' @ the (ref_value hd_ref) @ [CHR 0x0A] else [])
                                 @ merge_line
                                 @ ''author '' @ a_name @ '' <'' @ a_email @ ''> '' @ a_date @ [CHR 0x0A]
                                 @ ''committer '' @ fst (user_identity e) @ '' <'' @ snd (user_identity e)
                                 @ ''> '' @ format_timestamp e @ [CHR 0x0A]
                                 @ [CHR 0x0A] @ message @ [CHR 0x0A]
                           in case hash_object e commit_data ''commit'' st2 of
                                (Inl err, st3) \<Rightarrow> (Inl err, st3)
                              | (Inr oid, st3) \<Rightarrow>
                                  (case update_ref e ''HEAD'' \<lparr>symbolic = False, ref_value = Some oid\<rparr>
                                          True st3 of
                                     (Inl err, st4) \<Rightarrow> (Inl err, st4)
                                   | (Inr u, st4) \<Rightarrow> (Inr oid, st4)))))))"

section \<open>Sample environment\<close>

text \<open>
  A stand-in for the library services, used to run the model on concrete repositories:
  a digest that does not look at its input, a compressor that stores bytes as they
  are, and a table of \<open>diff3\<close> runs. No general theorem depends on it.
\<close>

text \<open>
  What \<open>diff3 -m\<close> prints and returns on the inputs used below: a side equal to the older
  file gives the other side, equal sides give that side, the five-line file changed in
  its first line on one side and in its last line on the other merges without conflict,
  and files that differ as a whole are printed between conflict markers with return
  code 1.
\<close>

definition sample_diff3 :: "bytes \<Rightarrow> bytes \<Rightarrow> bytes \<Rightarrow> bytes \<times> int" where
  "sample_diff3 mine older yours =
     (if mine = older then (yours, 0)
      else if yours = older \<or> mine = yours then (mine, 0)
      else if older = ''1\<newline>2\<newline>3\<newline>4\<newline>5\<newline>'' \<and> mine = ''one\<newline>2\<newline>3\<newline>4\<newline>5\<newline>''
              \<and> yours = ''1\<newline>2\<newline>3\<newline>4\<newline>five\<newline>''
        then (''one\<newline>2\<newline>3\<newline>4\<newline>five\<newline>'', 0)
      else (''<<<<<<< HEAD\<newline>'' @ mine @ ''||||||| BASE\<newline>'' @ older @ ''=======\<newline>'' @ yours
              @ ''>>>>>>> MERGE_HEAD\<newline>'', 1))"

definition sample_env :: env where
  "sample_env = \<lparr> sha1_hex = (\<lambda>b. ''da39a3ee5e6b4b0d3255bfef95601890afd80709''),
                  zlib_compress = (\<lambda>b. b),
                  zlib_decompress = (\<lambda>b. Some b),
                  diff3 = sample_diff3,
                  recursion_limit = 1000,
                  user_identity = (''Unknown'', ''unknown@example.com''),
                  format_timestamp = ''0 +0000'' \<rparr>"

text \<open>The store right after \<open>init\<close>, before \<open>HEAD\<close> is written.\<close>

definition empty_store :: repo where
  "empty_store = \<lparr> files = [([''.gitforge''], Dir), ([''.gitforge'', ''objects''], Dir)],
                   index = [], REBASE_STATE = None \<rparr>"

text \<open>A store in which an object file was cut short by an interrupted write.\<close>

definition torn_store :: repo where
  "torn_store = \<lparr> files = [([''.gitforge''], Dir), ([''.gitforge'', ''objects''], Dir),
                            ([''.gitforge'', ''objects'', ''da''], Dir),
                            ([''.gitforge'', ''objects'', ''da'', ''39a3ee5e6b4b0d3255bfef95601890afd80709''],
                             File ''blo'')],
                   index = [], REBASE_STATE = None \<rparr>"

text \<open>
  A history as the tool itself builds it: a root commit, two commits on one branch, one
  commit on another, and the merge of the two branches (first parent: the side branch).
  Object names are placeholders of the right shape, not digests of the contents.
\<close>

abbreviation oid_root :: string where
  "oid_root \<equiv> ''a000000000000000000000000000000000000000''"

abbreviation oid_one :: string where
  "oid_one \<equiv> ''a100000000000000000000000000000000000000''"

abbreviation oid_two :: string where
  "oid_two \<equiv> ''a200000000000000000000000000000000000000''"

abbreviation oid_side :: string where
  "oid_side \<equiv> ''b000000000000000000000000000000000000000''"

abbreviation oid_merge :: string where
  "oid_merge \<equiv> ''c000000000000000000000000000000000000000''"

definition sample_objects :: fs where
  "sample_objects =
    [([''.gitforge''], Dir),
     ([''.gitforge'', ''objects''], Dir),
     ([''.gitforge'', ''objects'', ''a0''], Dir),
     ([''.gitforge'', ''objects'', ''a1''], Dir),
     ([''.gitforge'', ''objects'', ''a2''], Dir),
     ([''.gitforge'', ''objects'', ''b0''], Dir),
     ([''.gitforge'', ''objects'', ''c0''], Dir),
     ([''.gitforge'', ''objects'', ''d0''], Dir),
     ([''.gitforge'', ''objects'', ''d1''], Dir),
     ([''.gitforge'', ''objects'', ''d2''], Dir),
     ([''.gitforge'', ''objects'', ''d3''], Dir),
     ([''.gitforge'', ''objects'', ''d4''], Dir),
     ([''.gitforge'', ''objects'', ''e1''], Dir),
     ([''.gitforge'', ''objects'', ''e2''], Dir),
     ([''.gitforge'', ''objects'', ''e3''], Dir),
     ([''.gitforge'', ''objects'', ''e4''], Dir),
     ([''.gitforge'', ''objects'', ''e1'', ''00000000000000000000000000000000000000''],
      File (''blob'' @ [CHR 0x00] @ ''base\<newline>'')),
     ([''.gitforge'', ''objects'', ''e2'', ''00000000000000000000000000000000000000''],
      File (''blob'' @ [CHR 0x00] @ ''one\<newline>'')),
     ([''.gitforge'', ''objects'', ''e3'', ''00000000000000000000000000000000000000''],
      File (''blob'' @ [CHR 0x00] @ ''two\<newline>'')),
     ([''.gitforge'', ''objects'', ''e4'', ''00000000000000000000000000000000000000''],
      File (''blob'' @ [CHR 0x00] @ ''side\<newline>'')),
     ([''.gitforge'', ''objects'', ''d0'', ''00000000000000000000000000000000000000''],
      File (''tree'' @ [CHR 0x00] @ ''blob e100000000000000000000000000000000000000 file.txt\<newline>'')),
     ([''.gitforge'', ''objects'', ''d1'', ''00000000000000000000000000000000000000''],
      File (''tree'' @ [CHR 0x00] @ ''blob e200000000000000000000000000000000000000 a.txt\<newline>blob e100000000000000000000000000000000000000 file.txt\<newline>'')),
     ([''.gitforge'', ''objects'', ''d2'', ''00000000000000000000000000000000000000''],
      File (''tree'' @ [CHR 0x00] @ ''blob e300000000000000000000000000000000000000 a.txt\<newline>blob e100000000000000000000000000000000000000 file.txt\<newline>'')),
     ([''.gitforge'', ''objects'', ''d3'', ''00000000000000000000000000000000000000''],
      File (''tree'' @ [CHR 0x00] @ ''blob e400000000000000000000000000000000000000 b.txt\<newline>blob e100000000000000000000000000000000000000 file.txt\<newline>'')),
     ([''.gitforge'', ''objects'', ''d4'', ''00000000000000000000000000000000000000''],
      File (''tree'' @ [CHR 0x00] @ ''blob e300000000000000000000000000000000000000 a.txt\<newline>blob e400000000000000000000000000000000000000 b.txt\<newline>blob e100000000000000000000000000000000000000 file.txt\<newline>'')),
     ([''.gitforge'', ''objects'', ''a0'', ''00000000000000000000000000000000000000''],
      File (''commit'' @ [CHR 0x00] @ ''tree d000000000000000000000000000000000000000\<newline>author A <a@example.com> 0 +0000\<newline>committer A <a@example.com> 0 +0000\<newline>\<newline>base\<newline>'')),
     ([''.gitforge'', ''objects'', ''a1'', ''00000000000000000000000000000000000000''],
      File (''commit'' @ [CHR 0x00] @ ''tree d100000000000000000000000000000000000000\<newline>parent a000000000000000000000000000000000000000\<newline>author A <a@example.com> 0 +0000\<newline>committer A <a@example.com> 0 +0000\<newline>\<newline>one\<newline>'')),
     ([''.gitforge'', ''objects'', ''a2'', ''00000000000000000000000000000000000000''],
      File (''commit'' @ [CHR 0x00] @ ''tree d200000000000000000000000000000000000000\<newline>parent a100000000000000000000000000000000000000\<newline>author A <a@example.com> 0 +0000\<newline>committer A <a@example.com> 0 +0000\<newline>\<newline>two\<newline>'')),
     ([''.gitforge'', ''objects'', ''b0'', ''00000000000000000000000000000000000000''],
      File (''commit'' @ [CHR 0x00] @ ''tree d300000000000000000000000000000000000000\<newline>parent a000000000000000000000000000000000000000\<newline>author A <a@example.com> 0 +0000\<newline>committer A <a@example.com> 0 +0000\<newline>\<newline>side\<newline>'')),
     ([''.gitforge'', ''objects'', ''c0'', ''00000000000000000000000000000000000000''],
      File (''commit'' @ [CHR 0x00] @ ''tree d400000000000000000000000000000000000000\<newline>parent b000000000000000000000000000000000000000\<newline>parent a200000000000000000000000000000000000000\<newline>author A <a@example.com> 0 +0000\<newline>committer A <a@example.com> 0 +0000\<newline>\<newline>merge\<newline>''))]"


definition history_store :: repo where
  "history_store = \<lparr> files = sample_objects, index = [], REBASE_STATE = None \<rparr>"


text \<open>
  A store with the first two commits of that history only, their trees and their blobs.
\<close>

definition small_objects :: fs where
  "small_objects =
    [([''.gitforge''], Dir),
     ([''.gitforge'', ''objects''], Dir),
     ([''.gitforge'', ''objects'', ''e1''], Dir),
     ([''.gitforge'', ''objects'', ''e2''], Dir),
     ([''.gitforge'', ''objects'', ''d0''], Dir),
     ([''.gitforge'', ''objects'', ''d1''], Dir),
     ([''.gitforge'', ''objects'', ''a0''], Dir),
     ([''.gitforge'', ''objects'', ''a1''], Dir),
     ([''.gitforge'', ''objects'', ''e1'', ''00000000000000000000000000000000000000''],
      File (''blob'' @ [CHR 0x00] @ ''base\<newline>'')),
     ([''.gitforge'', ''objects'', ''e2'', ''00000000000000000000000000000000000000''],
      File (''blob'' @ [CHR 0x00] @ ''one\<newline>'')),
     ([''.gitforge'', ''objects'', ''d0'', ''00000000000000000000000000000000000000''],
      File (''tree'' @ [CHR 0x00] @ ''blob e100000000000000000000000000000000000000 file.txt\<newline>'')),
     ([''.gitforge'', ''objects'', ''d1'', ''00000000000000000000000000000000000000''],
      File (''tree'' @ [CHR 0x00] @ ''blob e200000000000000000000000000000000000000 a.txt\<newline>blob e100000000000000000000000000000000000000 file.txt\<newline>'')),
     ([''.gitforge'', ''objects'', ''a0'', ''00000000000000000000000000000000000000''],
      File (''commit'' @ [CHR 0x00] @ ''tree d000000000000000000000000000000000000000\<newline>author A <a@example.com> 0 +0000\<newline>committer A <a@example.com> 0 +0000\<newline>\<newline>base\<newline>'')),
     ([''.gitforge'', ''objects'', ''a1'', ''00000000000000000000000000000000000000''],
      File (''commit'' @ [CHR 0x00] @ ''tree d100000000000000000000000000000000000000\<newline>parent a000000000000000000000000000000000000000\<newline>author A <a@example.com> 0 +0000\<newline>committer A <a@example.com> 0 +0000\<newline>\<newline>one\<newline>''))]"


definition root_repo :: repo where
  "root_repo =
     \<lparr> files = small_objects @
         [([''.gitforge'', ''HEAD''], File ''ref: refs/heads/master''),
          ([''.gitforge'', ''refs''], Dir),
          ([''.gitforge'', ''refs'', ''heads''], Dir),
          ([''.gitforge'', ''refs'', ''heads'', ''master''], File oid_root),
          ([''file.txt''], File ''base\<newline>'')],
       index = [(''file.txt'', Clear (Some ''e100000000000000000000000000000000000000''))],
       REBASE_STATE = None \<rparr>"

section \<open>Facts about the file system\<close>

lemma os_write_read:
  "os_write fs k v = Inr fs' \<Longrightarrow> os_read fs' k = Inr v"
  by (auto simp: os_write_def os_read_def update_conv' split: if_splits)

lemma partition_nul_tag:
  "CHR 0x00 \<notin> set t \<Longrightarrow> partition_nul (t @ [CHR 0x00] @ d) = (t, d)"
  by (induction t) (auto simp: partition_nul_def)

lemma hash_object_stored:
  assumes "hash_object e data ty st = (Inr oid, st')"
  shows "os_read (files st') (os_key (object_path oid))
           = Inr (zlib_compress e (ty @ [CHR 0x00] @ data))"
  using assms
  by (auto simp: hash_object_def Let_def dest: os_write_read split: sum.splits)

section \<open>Claims\<close>

text \<open>
  C1. For every byte string and every type tag among blob, tree and commit: when
  \<open>hash_object\<close> has stored the bytes under the OID it returns, \<open>get_object\<close> with that
  OID and that type returns exactly the bytes, and the stored object, inflated, is the
  tag, one NUL and the payload, so the recorded type is the tag (\<open>get_object\<close> with no
  expected type returns the payload as well). zlib is assumed to inflate what it
  deflated.
\<close>

theorem hash_object_get_object_roundtrip:
  assumes inflate: "\<forall>x. zlib_decompress e (zlib_compress e x) = Some x"
    and tag: "ty \<in> {''blob'', ''tree'', ''commit''}"
    and stored: "hash_object e data ty st = (Inr oid, st')"
  shows "get_object e st' oid (Some ty) = Inr data
       \<and> get_object e st' oid None = Inr data
       \<and> (\<exists>raw. os_read (files st') (os_key (object_path oid)) = Inr raw
              \<and> map_option (fst \<circ> partition_nul) (zlib_decompress e raw) = Some ty)"
proof -
  let ?obj = "ty @ [CHR 0x00] @ data"
  have rd: "os_read (files st') (os_key (object_path oid)) = Inr (zlib_compress e ?obj)"
    using hash_object_stored [OF stored] .
  have nul: "CHR 0x00 \<notin> set ty" using tag by auto
  have part: "partition_nul ?obj = (ty, data)"
    using partition_nul_tag [OF nul] .
  have dec: "decode ty = Inr ty" using tag by (auto simp: decode_def)
  have inf: "zlib_decompress e (zlib_compress e ?obj) = Some ?obj"
    using inflate by blast
  show ?thesis
    using rd part dec inf by (simp add: get_object_def)
qed

theorem hash_object_get_object_roundtrip_witness:
  "get_object sample_env
     (snd (hash_object sample_env ''Hello, World!'' ''blob'' empty_store))
     ''da39a3ee5e6b4b0d3255bfef95601890afd80709'' (Some ''blob'') = Inr ''Hello, World!''"
proof -
  have inflate: "\<forall>x. zlib_decompress sample_env (zlib_compress sample_env x) = Some x"
    by (simp add: sample_env_def)
  have tag: "''blob'' \<in> {''blob'', ''tree'', ''commit''}" by simp
  have stored: "hash_object sample_env ''Hello, World!'' ''blob'' empty_store
      = (Inr ''da39a3ee5e6b4b0d3255bfef95601890afd80709'',
         snd (hash_object sample_env ''Hello, World!'' ''blob'' empty_store))"
    by (simp add: hash_object_def sample_env_def empty_store_def os_makedirs_def os_write_def
        os_isdir_def os_key_def object_path_def GIT_DIR_def Let_def)
  show ?thesis
    using hash_object_get_object_roundtrip [OF inflate tag stored] by simp
qed

text \<open>
  Making directories changes no file's contents, and a write changes one file.
\<close>

lemma mkdir_prefixes_read:
  "mkdir_prefixes fs made cs = Inr fs' \<Longrightarrow> os_read fs' k = os_read fs k"
proof (induction cs arbitrary: fs made)
  case Nil
  then show ?case by simp
next
  case (Cons c cs)
  show ?case
  proof (cases "map_of fs (made @ [c])")
    case None
    with Cons.prems have "mkdir_prefixes (AList.update (made @ [c]) Dir fs) (made @ [c]) cs = Inr fs'"
      by (simp add: Let_def)
    from Cons.IH [OF this] have "os_read fs' k = os_read (AList.update (made @ [c]) Dir fs) k" .
    also have "\<dots> = os_read fs k"
      using None by (simp add: os_read_def update_conv')
    finally show ?thesis .
  next
    case (Some n)
    with Cons.prems Cons.IH show ?thesis
      by (cases n) (auto simp: Let_def)
  qed
qed

lemma os_write_read_all:
  "os_write fs k v = Inr fs' \<Longrightarrow> os_read fs' k' = (if k' = k then Inr v else os_read fs k')"
  by (auto simp: os_write_def os_read_def update_conv' split: if_splits)

text \<open>
  C7, as stated: re-hashing never rewrites an existing object file. \<open>hash_object\<close> has no
  test for an existing file: it opens the object file for writing on every call. Here
  the file holds the first three bytes of an object; the call returns the OID and the file
  then holds the whole object: it was rewritten.
\<close>

theorem hash_object_rewrites_counterexample:
  "object_exists torn_store ''da39a3ee5e6b4b0d3255bfef95601890afd80709''
   \<and> fst (hash_object sample_env ''Hello'' ''blob'' torn_store) = Inr ''da39a3ee5e6b4b0d3255bfef95601890afd80709''
   \<and> os_read (files torn_store) (os_key (object_path ''da39a3ee5e6b4b0d3255bfef95601890afd80709'')) = Inr ''blo''
   \<and> os_read (files (snd (hash_object sample_env ''Hello'' ''blob'' torn_store)))
        (os_key (object_path ''da39a3ee5e6b4b0d3255bfef95601890afd80709'')) = Inr (''blob'' @ [CHR 0x00] @ ''Hello'')"
  by (simp add: hash_object_def sample_env_def torn_store_def os_makedirs_def os_write_def os_read_def
        os_isdir_def os_isfile_def object_exists_def os_key_def object_path_def GIT_DIR_def Let_def)

text \<open>
  C7, amended: \<open>hash_object\<close> returns the OID the bytes determine (the digest of tag, NUL
  and payload, the same on every call), writes the deflated object to the object file
  whether or not it exists, and changes no other file's contents, nor the index, nor the
  rebase state. Where the file already holds exactly these bytes, no file's contents
  change.
\<close>

theorem hash_object_rehash:
  assumes ok: "hash_object e data ty st = (Inr oid, st')"
  shows "oid = sha1_hex e (ty @ [CHR 0x00] @ data)
       \<and> (\<forall>k. os_read (files st') k =
              (if k = os_key (object_path oid) then Inr (zlib_compress e (ty @ [CHR 0x00] @ data))
               else os_read (files st) k))
       \<and> index st' = index st \<and> REBASE_STATE st' = REBASE_STATE st
       \<and> (os_read (files st) (os_key (object_path oid)) = Inr (zlib_compress e (ty @ [CHR 0x00] @ data))
            \<longrightarrow> (\<forall>k. os_read (files st') k = os_read (files st) k))"
proof -
  let ?obj = "ty @ [CHR 0x00] @ data"
  let ?oid = "sha1_hex e ?obj"
  obtain fs1 where mk: "os_makedirs (files st) (os_key (GIT_DIR @ ''/objects/'' @ take 2 ?oid)) = Inr fs1"
    using ok by (cases "os_makedirs (files st) (os_key (GIT_DIR @ ''/objects/'' @ take 2 ?oid))")
      (simp_all add: hash_object_def Let_def)
  obtain fs2 where wr: "os_write fs1 (os_key (object_path ?oid)) (zlib_compress e ?obj) = Inr fs2"
    using ok mk by (cases "os_write fs1 (os_key (object_path ?oid)) (zlib_compress e ?obj)")
      (simp_all add: hash_object_def Let_def)
  have res: "hash_object e data ty st = (Inr ?oid, st\<lparr>files := fs2\<rparr>)"
    using mk wr by (simp add: hash_object_def Let_def)
  have oid: "oid = ?oid" and st': "st' = st\<lparr>files := fs2\<rparr>"
    using ok res by simp_all
  have r1: "os_read fs1 k = os_read (files st) k" for k
    using mk by (simp add: os_makedirs_def mkdir_prefixes_read)
  have r2: "os_read fs2 k = (if k = os_key (object_path oid) then Inr (zlib_compress e ?obj) else os_read (files st) k)" for k
    using os_write_read_all [OF wr] r1 oid by simp
  show ?thesis using oid st' r2 by simp
qed

theorem hash_object_rehash_witness:
  "fst (hash_object sample_env ''Hello'' ''blob'' empty_store) = Inr (sha1_hex sample_env (''blob'' @ [CHR 0x00] @ ''Hello''))
   \<and> fst (hash_object sample_env ''Hello'' ''blob'' (snd (hash_object sample_env ''Hello'' ''blob'' empty_store)))
       = Inr (sha1_hex sample_env (''blob'' @ [CHR 0x00] @ ''Hello''))
   \<and> (\<forall>k. os_read (files (snd (hash_object sample_env ''Hello'' ''blob''
                 (snd (hash_object sample_env ''Hello'' ''blob'' empty_store))))) k
          = os_read (files (snd (hash_object sample_env ''Hello'' ''blob'' empty_store))) k)"
proof -
  let ?st1 = "snd (hash_object sample_env ''Hello'' ''blob'' empty_store)"
  let ?oid = "''da39a3ee5e6b4b0d3255bfef95601890afd80709''"
  have a: "fst (hash_object sample_env ''Hello'' ''blob'' empty_store) = Inr ?oid"
    by (simp add: hash_object_def sample_env_def empty_store_def os_makedirs_def os_write_def
        os_isdir_def os_key_def object_path_def GIT_DIR_def Let_def)
  have b: "fst (hash_object sample_env ''Hello'' ''blob'' ?st1) = Inr ?oid"
    by (simp add: hash_object_def sample_env_def empty_store_def os_makedirs_def os_write_def
        os_isdir_def os_key_def object_path_def GIT_DIR_def Let_def)
  have first: "hash_object sample_env ''Hello'' ''blob'' empty_store = (Inr ?oid, ?st1)"
    using a by (metis prod.collapse)
  have again: "hash_object sample_env ''Hello'' ''blob'' ?st1
      = (Inr ?oid, snd (hash_object sample_env ''Hello'' ''blob'' ?st1))"
    using b by (metis prod.collapse)
  have sha: "sha1_hex sample_env x = ?oid" for x
    by (simp add: sample_env_def)
  have held: "os_read (files ?st1) (os_key (object_path ?oid))
      = Inr (zlib_compress sample_env (''blob'' @ [CHR 0x00] @ ''Hello''))"
    using hash_object_rehash [OF first] by presburger
  have same: "\<forall>k. os_read (files (snd (hash_object sample_env ''Hello'' ''blob'' ?st1))) k
      = os_read (files ?st1) k"
    using hash_object_rehash [OF again] held by blast
  show ?thesis
    unfolding sha using a b same by blast
qed

text \<open>
  C3, the part that holds on every store: the merge base of a commit and itself is that
  commit (the loop is not entered).
\<close>

lemma get_merge_base_same:
  "get_merge_base e st a a = Some (Inr (Some a))"
  by (simp add: get_merge_base_def)

text \<open>
  C3. The claim: where \<open>is_ancestor_of(c, a)\<close> holds, \<open>get_merge_base(c, a)\<close> is \<open>a\<close>, on
  graphs with merge commits too. On the sample history the merge commit has the commit
  \<open>one\<close> among its ancestors (through its second parent), and the two-sided search
  returns the root: the search from the merge commit reaches the root through the short
  first-parent side after the search from \<open>one\<close> has visited the root, one round before
  it would reach \<open>one\<close>.
\<close>

theorem get_merge_base_of_ancestor_is_root:
  "is_ancestor_of sample_env history_store oid_merge oid_one = Some (Inr True)
   \<and> get_merge_base sample_env history_store oid_merge oid_one = Some (Inr (Some oid_root))"
  by code_simp

section \<open>Facts about the three-way merge of trees\<close>















section \<open>Facts about references, paths and the checkout\<close>



lemma get_ref_internal_noderef:
  "get_ref_internal (Suc n) st ref False = get_ref_internal (Suc m) st ref False"
  by (simp split: sum.splits option.splits)

















lemma checkout_entries_rest:
  "checkout_entries e idx st = (r, st') \<Longrightarrow> index st' = index st \<and> REBASE_STATE st' = REBASE_STATE st"
proof (induction idx arbitrary: st)
  case Nil
  then show ?case by simp
next
  case (Cons a idx)
  obtain path en where a: "a = (path, en)" by (cases a)
  show ?case
    using Cons.prems Cons.IH a
    by (fastforce split: option.splits sum.splits)
qed









end
